theory Spec2Isabelle
  imports Main "HOL-Library.Multiset" "HOL-Library.Sublist"
begin

section \<open>Values that cross the service boundary\<close>

text \<open>
  A string is a list of characters. A \<open>char\<close> covers the code points below 256, which is
  the range of characters modelled; letter case is folded for the ASCII letters.
\<close>

text \<open>
  A JavaScript \<open>Date\<close> holds a time value: milliseconds since the epoch, or \<open>NaN\<close>
  (an "Invalid Date"). \<open>new Date()\<close> reads the clock; every operation below takes the
  clock reading \<open>now\<close> as a parameter, one reading per request.
\<close>

type_synonym time = int

datatype jsdate = InvalidDate | ValidDate time

text \<open>
  The \<open>dueDate\<close> of a request body arrives as JSON: the key is absent (\<open>undefined\<close>),
  \<open>null\<close>, or a string (the client's form sends the empty string when no date is picked).
  The request types declare no other kind of value for it, and none is modelled.
\<close>

datatype jsvalue = JUndefined | JNull | JString string

text \<open>JavaScript truthiness, as used by \<open>x && ...\<close> and \<open>x ? ... : ...\<close>.\<close>

fun truthy :: "jsvalue \<Rightarrow> bool" where
  "truthy JUndefined = False"
| "truthy JNull = False"
| "truthy (JString s) = (s \<noteq> [])"

text \<open>
  \<open>new Date(v)\<close>. Parsing a date string is left to the engine (\<open>Date.parse\<close>), which is
  the parameter \<open>parse\<close>; the empty string never parses, \<open>null\<close> converts to the number 0
  and \<open>undefined\<close> to \<open>NaN\<close>.
\<close>

fun newDate :: "(string \<Rightarrow> jsdate) \<Rightarrow> jsvalue \<Rightarrow> jsdate" where
  "newDate parse JUndefined = InvalidDate"
| "newDate parse JNull = ValidDate 0"
| "newDate parse (JString s) = (if s = [] then InvalidDate else parse s)"

text \<open>\<open>d <= new Date()\<close>: a comparison with \<open>NaN\<close> is false.\<close>

fun date_le :: "jsdate \<Rightarrow> time \<Rightarrow> bool" where
  "date_le InvalidDate now = False"
| "date_le (ValidDate d) now = (d \<le> now)"

section \<open>The task collection (models/taskModel.ts)\<close>

record task =
  oid :: string
  title :: string
  description :: "string option"
  isCompleted :: bool
  priority :: string
  dueDate :: "time option"
  tags :: "string list"
  createdAt :: time
  updatedAt :: time

text \<open>The collection, in insertion order.\<close>

type_synonym store = "task list"

datatype field_error =
    TitleRequired
  | TitleTooLong
  | DescriptionTooLong
  | PriorityInvalid
  | DueDateNotFuture
  | DueDateCast

datatype error =
    InvalidTaskIdFormat
  | DueDateMustBeFuture
  | ValidationError "field_error list"
  | CastError
  | DuplicateKey
  | RegexError

subsection \<open>Schema setters and validators\<close>

definition is_space :: "char \<Rightarrow> bool" where
  "is_space c = ((of_char c :: nat) \<in> {9, 10, 11, 12, 13, 32, 160})"

text \<open>
  \<open>trim: true\<close> is \<open>String.prototype.trim\<close>: white space and line terminators go from
  both ends (tab, line feed, vertical tab, form feed, carriage return, space and no-break
  space are the ones below 256).
\<close>

definition trim :: "string \<Rightarrow> string" where
  "trim s = rev (dropWhile is_space (rev (dropWhile is_space s)))"

text \<open>\<open>required\<close> and \<open>maxlength: 200\<close> on the trimmed title.\<close>

definition validate_title :: "string \<Rightarrow> field_error list" where
  "validate_title v =
     (if v = [] then [TitleRequired]
      else if 200 < length v then [TitleTooLong]
      else [])"

definition validate_description :: "string \<Rightarrow> field_error list" where
  "validate_description v = (if 1000 < length v then [DescriptionTooLong] else [])"

definition validate_priority :: "string \<Rightarrow> field_error list" where
  "validate_priority v =
     (if v \<in> {''low'', ''medium'', ''high''} then [] else [PriorityInvalid])"

text \<open>
  The \<open>dueDate\<close> path: a \<open>Date\<close> holding \<open>NaN\<close> does not cast to the schema's date type;
  a date is valid when \<open>date > new Date()\<close>.
\<close>

fun validate_dueDate :: "time \<Rightarrow> jsdate \<Rightarrow> field_error list" where
  "validate_dueDate now InvalidDate = [DueDateCast]"
| "validate_dueDate now (ValidDate d) = (if now < d then [] else [DueDateNotFuture])"

fun opt_errors :: "('a \<Rightarrow> field_error list) \<Rightarrow> 'a option \<Rightarrow> field_error list" where
  "opt_errors f None = []"
| "opt_errors f (Some v) = f v"

fun stored_date :: "jsdate option \<Rightarrow> time option" where
  "stored_date None = None"
| "stored_date (Some InvalidDate) = None"
| "stored_date (Some (ValidDate d)) = Some d"

subsection \<open>Identifiers\<close>

definition is_hex :: "char \<Rightarrow> bool" where
  "is_hex c =
     (let n = (of_char c :: nat)
      in (48 \<le> n \<and> n \<le> 57) \<or> (97 \<le> n \<and> n \<le> 102) \<or> (65 \<le> n \<and> n \<le> 70))"

text \<open>\<open>id.match(/^[0-9a-fA-F]{24}$/)\<close>\<close>

definition valid_id :: "string \<Rightarrow> bool" where
  "valid_id ident = (length ident = 24 \<and> list_all is_hex ident)"

definition to_lower :: "char \<Rightarrow> char" where
  "to_lower c =
     (let n = (of_char c :: nat)
      in if 65 \<le> n \<and> n \<le> 90 then char_of (n + 32) else c)"

text \<open>
  A 24-digit hexadecimal string casts to an ObjectId; the collection keeps each \<open>_id\<close> as
  its lower-case hexadecimal form, so the cast of a string is its lower-case copy.
\<close>

definition objectId :: "string \<Rightarrow> string" where
  "objectId ident = map to_lower ident"

definition has_id :: "string \<Rightarrow> task \<Rightarrow> bool" where
  "has_id ident t = (oid t = objectId ident)"

subsection \<open>Store operations\<close>

text \<open>
  What \<open>new Task({...})\<close> receives from \<open>createTask\<close>: the request's fields, with
  \<open>dueDate\<close> replaced by a \<open>Date\<close> or by \<open>undefined\<close>.
\<close>

record draft =
  d_title :: string
  d_description :: "string option"
  d_priority :: "string option"
  d_dueDate :: "jsdate option"
  d_tags :: "string list option"

text \<open>
  \<open>new Task(d).save()\<close>: the setters (\<open>trim\<close>) and defaults of the schema build the
  document, every path is validated, and the document is inserted under the freshly
  generated \<open>_id\<close>, which the environment supplies as \<open>newid\<close>. \<open>createdAt\<close> defaults to
  the clock and the \<open>pre('save')\<close> hook stamps \<open>updatedAt\<close>.
\<close>

definition new_Task :: "time \<Rightarrow> string \<Rightarrow> draft \<Rightarrow> task" where
  "new_Task now newid d =
     \<lparr> oid = newid,
       title = trim (d_title d),
       description = map_option trim (d_description d),
       isCompleted = False,
       priority = (case d_priority d of None \<Rightarrow> ''medium'' | Some p \<Rightarrow> p),
       dueDate = stored_date (d_dueDate d),
       tags = (case d_tags d of None \<Rightarrow> [] | Some ts \<Rightarrow> map trim ts),
       createdAt = now,
       updatedAt = now \<rparr>"

definition save :: "time \<Rightarrow> string \<Rightarrow> store \<Rightarrow> draft \<Rightarrow> store \<times> (error + task)" where
  "save now newid s d =
     (let t = new_Task now newid d;
          errs = validate_title (title t)
               @ opt_errors validate_description (description t)
               @ validate_priority (priority t)
               @ opt_errors (validate_dueDate now) (d_dueDate d)
      in if errs \<noteq> [] then (s, Inl (ValidationError errs))
         else if list_ex (\<lambda>t'. oid t' = newid) s then (s, Inl DuplicateKey)
         else (s @ [t], Inr t))"

text \<open>
  The update document \<open>updateTask\<close> hands to \<open>findByIdAndUpdate\<close>. A key whose value is
  \<open>undefined\<close> is \<open>None\<close> here: the update is cast to a \<open>$set\<close> of the keys that hold a
  value, and keys holding \<open>undefined\<close> are stripped from it (as Mongoose does from
  version 6 on).
\<close>

record update_doc =
  s_title :: "string option"
  s_description :: "string option"
  s_priority :: "string option"
  s_dueDate :: "jsdate option"
  s_tags :: "string list option"
  s_isCompleted :: "bool option"
  s_updatedAt :: time

definition cast_update :: "update_doc \<Rightarrow> update_doc" where
  "cast_update u =
     u\<lparr> s_title := map_option trim (s_title u),
        s_description := map_option trim (s_description u),
        s_tags := map_option (map trim) (s_tags u) \<rparr>"

definition update_errors :: "time \<Rightarrow> update_doc \<Rightarrow> field_error list" where
  "update_errors now u =
     opt_errors validate_title (s_title u)
     @ opt_errors validate_description (s_description u)
     @ opt_errors validate_priority (s_priority u)
     @ opt_errors (validate_dueDate now) (s_dueDate u)"

definition apply_set :: "update_doc \<Rightarrow> task \<Rightarrow> task" where
  "apply_set u t =
     t\<lparr> title := (case s_title u of None \<Rightarrow> title t | Some v \<Rightarrow> v),
        description := (case s_description u of None \<Rightarrow> description t | Some v \<Rightarrow> Some v),
        priority := (case s_priority u of None \<Rightarrow> priority t | Some v \<Rightarrow> v),
        dueDate := (case s_dueDate u of None \<Rightarrow> dueDate t | Some v \<Rightarrow> stored_date (Some v)),
        tags := (case s_tags u of None \<Rightarrow> tags t | Some v \<Rightarrow> v),
        isCompleted := (case s_isCompleted u of None \<Rightarrow> isCompleted t | Some v \<Rightarrow> v),
        updatedAt := s_updatedAt u \<rparr>"

text \<open>The first document that matches is replaced; the answer is the new document.\<close>

fun update_first :: "(task \<Rightarrow> bool) \<Rightarrow> (task \<Rightarrow> task) \<Rightarrow> store \<Rightarrow> store \<times> task option" where
  "update_first P f [] = ([], None)"
| "update_first P f (t # ts) =
     (if P t then (f t # ts, Some (f t))
      else (case update_first P f ts of (ts', r) \<Rightarrow> (t # ts', r)))"

text \<open>
  \<open>Task.findByIdAndUpdate(id, u, { new: true, runValidators: true })\<close>: the update is
  cast (a \<open>Date\<close> holding \<open>NaN\<close> raises a cast error), the validators of the paths it sets
  run, and only then is the collection queried.
\<close>

definition findByIdAndUpdate ::
  "time \<Rightarrow> store \<Rightarrow> string \<Rightarrow> update_doc \<Rightarrow> store \<times> (error + task option)" where
  "findByIdAndUpdate now s ident u =
     (if s_dueDate u = Some InvalidDate then (s, Inl CastError)
      else let u' = cast_update u; errs = update_errors now u'
           in if errs \<noteq> [] then (s, Inl (ValidationError errs))
              else (case update_first (has_id ident) (apply_set u') s of
                      (s', r) \<Rightarrow> (s', Inr r)))"

definition findById :: "store \<Rightarrow> string \<Rightarrow> task option" where
  "findById s ident = find (has_id ident) s"

fun delete_first :: "(task \<Rightarrow> bool) \<Rightarrow> store \<Rightarrow> store \<times> task option" where
  "delete_first P [] = ([], None)"
| "delete_first P (t # ts) =
     (if P t then (ts, Some t)
      else (case delete_first P ts of (ts', r) \<Rightarrow> (t # ts', r)))"

definition findByIdAndDelete :: "store \<Rightarrow> string \<Rightarrow> store \<times> task option" where
  "findByIdAndDelete s ident = delete_first (has_id ident) s"

subsection \<open>Queries\<close>

text \<open>
  The query object \<open>getAllTasks\<close> builds: equality on \<open>isCompleted\<close> and \<open>priority\<close>, and
  \<open>$or\<close> of \<open>{title: {$regex: p, $options: 'i'}}\<close> and the same clause on \<open>description\<close>.
\<close>

record query =
  q_isCompleted :: "bool option"
  q_priority :: "string option"
  q_or_regex :: "string option"

text \<open>
  The characters with a special meaning in a regular expression:
  \<open>\ ^ $ . [ ] | ( ) ? * + { }\<close>.
\<close>

definition is_meta :: "char \<Rightarrow> bool" where
  "is_meta c =
     ((of_char c :: nat) \<in> {92, 94, 36, 46, 91, 93, 124, 40, 41, 63, 42, 43, 123, 125})"

definition is_dot :: "char \<Rightarrow> bool" where
  "is_dot c = ((of_char c :: nat) = 46)"

text \<open>
  One pattern character against one subject character under option \<open>i\<close>: \<open>.\<close> matches
  every character but a line feed, any other character matches itself in either case.
\<close>

definition elem_match :: "char \<Rightarrow> char \<Rightarrow> bool" where
  "elem_match p c = (if is_dot p then (of_char c :: nat) \<noteq> 10 else to_lower p = to_lower c)"

fun match_here :: "string \<Rightarrow> string \<Rightarrow> bool" where
  "match_here [] cs = True"
| "match_here (p # ps) [] = False"
| "match_here (p # ps) (c # cs) = (elem_match p c \<and> match_here ps cs)"

fun match_anywhere :: "string \<Rightarrow> string \<Rightarrow> bool" where
  "match_anywhere ps [] = match_here ps []"
| "match_anywhere ps (c # cs) = (match_here ps (c # cs) \<or> match_anywhere ps cs)"

definition is_ascii :: "char \<Rightarrow> bool" where
  "is_ascii c = (0 < (of_char c :: nat) \<and> (of_char c :: nat) < 128)"

definition plain_pattern :: "string \<Rightarrow> bool" where
  "plain_pattern p = list_all (\<lambda>c. is_ascii c \<and> (is_dot c \<or> \<not> is_meta c)) p"

text \<open>
  \<open>$regex\<close> is an unanchored regular-expression search. A pattern of ordinary ASCII
  characters and \<open>.\<close> is matched by \<open>match_anywhere\<close>; any other pattern is left to the
  database's regular-expression engine, the parameter \<open>engine\<close>, which answers \<open>None\<close> for
  a pattern that does not compile.
\<close>

definition regex_compile ::
  "(string \<Rightarrow> (string \<Rightarrow> bool) option) \<Rightarrow> string \<Rightarrow> (string \<Rightarrow> bool) option" where
  "regex_compile engine p = (if plain_pattern p then Some (match_anywhere p) else engine p)"

definition eq_clause :: "'a option \<Rightarrow> 'a \<Rightarrow> bool" where
  "eq_clause c v = (case c of None \<Rightarrow> True | Some x \<Rightarrow> v = x)"

text \<open>A regular-expression clause on a path the document lacks does not match.\<close>

definition or_clause :: "(string \<Rightarrow> bool) \<Rightarrow> task \<Rightarrow> bool" where
  "or_clause m t = (m (title t) \<or> (case description t of None \<Rightarrow> False | Some d \<Rightarrow> m d))"

definition find_query ::
  "(string \<Rightarrow> (string \<Rightarrow> bool) option) \<Rightarrow> query \<Rightarrow> store \<Rightarrow> error + task list" where
  "find_query engine q s =
     (case q_or_regex q of
        None \<Rightarrow>
          Inr (filter (\<lambda>t. eq_clause (q_isCompleted q) (isCompleted t)
                          \<and> eq_clause (q_priority q) (priority t)) s)
      | Some p \<Rightarrow>
          (case regex_compile engine p of
             None \<Rightarrow> Inl RegexError
           | Some m \<Rightarrow>
               Inr (filter (\<lambda>t. eq_clause (q_isCompleted q) (isCompleted t)
                               \<and> eq_clause (q_priority q) (priority t)
                               \<and> or_clause m t) s)))"

text \<open>\<open>.sort({createdAt: -1})\<close>: descending \<open>createdAt\<close>, by insertion.\<close>

fun insert_desc :: "task \<Rightarrow> task list \<Rightarrow> task list" where
  "insert_desc t [] = [t]"
| "insert_desc t (u # us) =
     (if createdAt u \<le> createdAt t then t # u # us else u # insert_desc t us)"

fun sort_createdAt_desc :: "task list \<Rightarrow> task list" where
  "sort_createdAt_desc [] = []"
| "sort_createdAt_desc (t # ts) = insert_desc t (sort_createdAt_desc ts)"

text \<open>
  The queries of \<open>getTaskStats\<close>: equality on \<open>isCompleted\<close> and
  \<open>dueDate: {$lt: d, $exists: true}\<close>.
\<close>

record count_query =
  c_isCompleted :: "bool option"
  c_dueDate_lt :: "time option"

definition count_matches :: "count_query \<Rightarrow> task \<Rightarrow> bool" where
  "count_matches q t =
     (eq_clause (c_isCompleted q) (isCompleted t)
      \<and> (case c_dueDate_lt q of
            None \<Rightarrow> True
          | Some d \<Rightarrow> (case dueDate t of None \<Rightarrow> False | Some x \<Rightarrow> x < d)))"

definition countDocuments :: "count_query \<Rightarrow> store \<Rightarrow> nat" where
  "countDocuments q s = length (filter (count_matches q) s)"

section \<open>The service (services/taskServices.ts)\<close>

record filters =
  f_isCompleted :: "bool option"
  f_priority :: "string option"
  f_search :: "string option"

text \<open>A string option is truthy when the string is present and not empty.\<close>

fun truthy_string :: "string option \<Rightarrow> string option" where
  "truthy_string None = None"
| "truthy_string (Some v) = (if v = [] then None else Some v)"

definition build_query :: "filters \<Rightarrow> query" where
  "build_query f =
     \<lparr> q_isCompleted = f_isCompleted f,
       q_priority = truthy_string (f_priority f),
       q_or_regex = truthy_string (f_search f) \<rparr>"

definition getAllTasks ::
  "(string \<Rightarrow> (string \<Rightarrow> bool) option) \<Rightarrow> store \<Rightarrow> filters \<Rightarrow> error + task list" where
  "getAllTasks engine s f =
     (case find_query engine (build_query f) s of
        Inl e \<Rightarrow> Inl e
      | Inr ts \<Rightarrow> Inr (sort_createdAt_desc ts))"

text \<open>The default argument \<open>filters = {}\<close>.\<close>

definition no_filters :: filters where
  "no_filters = \<lparr> f_isCompleted = None, f_priority = None, f_search = None \<rparr>"

definition getCompletedTasks ::
  "(string \<Rightarrow> (string \<Rightarrow> bool) option) \<Rightarrow> store \<Rightarrow> error + task list" where
  "getCompletedTasks engine s = getAllTasks engine s (no_filters\<lparr> f_isCompleted := Some True \<rparr>)"

definition getPendingTasks ::
  "(string \<Rightarrow> (string \<Rightarrow> bool) option) \<Rightarrow> store \<Rightarrow> error + task list" where
  "getPendingTasks engine s = getAllTasks engine s (no_filters\<lparr> f_isCompleted := Some False \<rparr>)"

definition getTaskById :: "store \<Rightarrow> string \<Rightarrow> error + task option" where
  "getTaskById s ident =
     (if \<not> valid_id ident then Inl InvalidTaskIdFormat else Inr (findById s ident))"

record create_request =
  c_title :: string
  c_description :: "string option"
  c_priority :: "string option"
  c_dueDate :: jsvalue
  c_tags :: "string list option"

definition createTask ::
  "time \<Rightarrow> (string \<Rightarrow> jsdate) \<Rightarrow> string \<Rightarrow> store \<Rightarrow> create_request \<Rightarrow> store \<times> (error + task)" where
  "createTask now parse newid s r =
     (if truthy (c_dueDate r) \<and> date_le (newDate parse (c_dueDate r)) now
      then (s, Inl DueDateMustBeFuture)
      else save now newid s
             \<lparr> d_title = c_title r,
               d_description = c_description r,
               d_priority = c_priority r,
               d_dueDate = (if truthy (c_dueDate r) then Some (newDate parse (c_dueDate r)) else None),
               d_tags = c_tags r \<rparr>)"

record update_request =
  u_title :: "string option"
  u_description :: "string option"
  u_priority :: "string option"
  u_dueDate :: jsvalue
  u_tags :: "string list option"
  u_isCompleted :: "bool option"

text \<open>
  \<open>const updateData = { ...updates, dueDate: updates.dueDate ? new Date(updates.dueDate)
  : undefined, updatedAt: new Date() }\<close>
\<close>

definition updateData :: "time \<Rightarrow> (string \<Rightarrow> jsdate) \<Rightarrow> update_request \<Rightarrow> update_doc" where
  "updateData now parse p =
     \<lparr> s_title = u_title p,
       s_description = u_description p,
       s_priority = u_priority p,
       s_dueDate = (if truthy (u_dueDate p) then Some (newDate parse (u_dueDate p)) else None),
       s_tags = u_tags p,
       s_isCompleted = u_isCompleted p,
       s_updatedAt = now \<rparr>"

definition updateTask ::
  "time \<Rightarrow> (string \<Rightarrow> jsdate) \<Rightarrow> store \<Rightarrow> string \<Rightarrow> update_request
     \<Rightarrow> store \<times> (error + task option)" where
  "updateTask now parse s ident p =
     (if \<not> valid_id ident then (s, Inl InvalidTaskIdFormat)
      else if truthy (u_dueDate p) \<and> date_le (newDate parse (u_dueDate p)) now
      then (s, Inl DueDateMustBeFuture)
      else findByIdAndUpdate now s ident (updateData now parse p))"

text \<open>
  The patch gets past everything that comes before the store is queried: the service's
  due-date check, the cast of the update and the validators of the paths it sets.
\<close>

definition patch_accepted :: "time \<Rightarrow> (string \<Rightarrow> jsdate) \<Rightarrow> update_request \<Rightarrow> bool" where
  "patch_accepted now parse p =
     (\<not> (truthy (u_dueDate p) \<and> date_le (newDate parse (u_dueDate p)) now)
      \<and> s_dueDate (updateData now parse p) \<noteq> Some InvalidDate
      \<and> update_errors now (cast_update (updateData now parse p)) = [])"

definition deleteTask :: "store \<Rightarrow> string \<Rightarrow> store \<times> (error + bool)" where
  "deleteTask s ident =
     (if \<not> valid_id ident then (s, Inl InvalidTaskIdFormat)
      else (case findByIdAndDelete s ident of (s', r) \<Rightarrow> (s', Inr (r \<noteq> None))))"

record stats =
  total :: nat
  completed :: nat
  pending :: nat
  overdue :: nat

definition getTaskStats :: "time \<Rightarrow> store \<Rightarrow> stats" where
  "getTaskStats now s =
     \<lparr> total = countDocuments \<lparr> c_isCompleted = None, c_dueDate_lt = None \<rparr> s,
       completed = countDocuments \<lparr> c_isCompleted = Some True, c_dueDate_lt = None \<rparr> s,
       pending = countDocuments \<lparr> c_isCompleted = Some False, c_dueDate_lt = None \<rparr> s,
       overdue = countDocuments \<lparr> c_isCompleted = Some False, c_dueDate_lt = Some now \<rparr> s \<rparr>"

text \<open>The empty patch \<open>{}\<close> and the patch of \<open>markTaskPending\<close>, \<open>{ isCompleted: false }\<close>.\<close>

definition empty_patch :: update_request where
  "empty_patch =
     \<lparr> u_title = None, u_description = None, u_priority = None, u_dueDate = JUndefined,
       u_tags = None, u_isCompleted = None \<rparr>"

definition markTaskPending ::
  "time \<Rightarrow> (string \<Rightarrow> jsdate) \<Rightarrow> store \<Rightarrow> string \<Rightarrow> store \<times> (error + task option)" where
  "markTaskPending now parse s ident =
     updateTask now parse s ident (empty_patch\<lparr> u_isCompleted := Some False \<rparr>)"

section \<open>Reference notions and sample data\<close>

text \<open>
  "x contains p as a case-insensitive substring": the lower-case copy of \<open>p\<close> is a
  contiguous part of the lower-case copy of \<open>x\<close>.
\<close>

definition contains_ci :: "string \<Rightarrow> string \<Rightarrow> bool" where
  "contains_ci p x = sublist (map to_lower p) (map to_lower x)"

text \<open>A search string of ASCII characters, none of them a metacharacter.\<close>

definition literal_pattern :: "string \<Rightarrow> bool" where
  "literal_pattern p = list_all (\<lambda>c. is_ascii c \<and> \<not> is_meta c) p"

definition task_a :: task where
  "task_a =
     \<lparr> oid = ''aaaaaaaaaaaaaaaaaaaaaaaa'', title = ''Pay rent'', description = None,
       isCompleted = False, priority = ''high'', dueDate = Some 5000, tags = [],
       createdAt = 100, updatedAt = 100 \<rparr>"

definition task_b :: task where
  "task_b =
     \<lparr> oid = ''bbbbbbbbbbbbbbbbbbbbbbbb'', title = ''Buy milk'', description = Some ''whole milk'',
       isCompleted = True, priority = ''low'', dueDate = None, tags = [''home''],
       createdAt = 300, updatedAt = 400 \<rparr>"

definition task_c :: task where
  "task_c =
     \<lparr> oid = ''cccccccccccccccccccccccc'', title = ''abc'', description = Some ''Call Bob'',
       isCompleted = False, priority = ''medium'', dueDate = Some 9000, tags = [],
       createdAt = 200, updatedAt = 200 \<rparr>"

definition sample_store :: store where
  "sample_store = [task_a, task_b, task_c]"

text \<open>An engine that rejects every pattern it is asked about.\<close>

definition no_engine :: "string \<Rightarrow> (string \<Rightarrow> bool) option" where
  "no_engine p = None"

text \<open>A date parser that knows two strings.\<close>

definition sample_parse :: "string \<Rightarrow> jsdate" where
  "sample_parse x =
     (if x = ''1970-01-01T00:00:02.000Z'' then ValidDate 2000
      else if x = ''1970-01-01T00:00:08.000Z'' then ValidDate 8000
      else InvalidDate)"

text \<open>A patch whose due date lies in the past of every clock reading used below.\<close>

definition past_patch :: update_request where
  "past_patch = empty_patch\<lparr> u_dueDate := JString ''1970-01-01T00:00:02.000Z'' \<rparr>"

definition future_patch :: update_request where
  "future_patch =
     empty_patch\<lparr> u_title := Some ''  Pay the rent '', u_isCompleted := Some False,
                  u_dueDate := JString ''1970-01-01T00:00:08.000Z'' \<rparr>"

definition sample_request :: create_request where
  "sample_request =
     \<lparr> c_title = ''Water plants'', c_description = None, c_priority = None,
       c_dueDate = JUndefined, c_tags = None \<rparr>"

text \<open>The task \<open>createTask\<close> makes of \<open>sample_request\<close> at clock reading 100 under \<open>id_d\<close>.\<close>

definition task_d :: task where
  "task_d =
     \<lparr> oid = ''dddddddddddddddddddddddd'', title = ''Water plants'', description = None,
       isCompleted = False, priority = ''medium'', dueDate = None, tags = [],
       createdAt = 100, updatedAt = 100 \<rparr>"

definition id_a :: string where
  "id_a = ''aaaaaaaaaaaaaaaaaaaaaaaa''"

definition id_d :: string where
  "id_d = ''dddddddddddddddddddddddd''"

section \<open>Properties of the store operations\<close>

lemma mset_insert_desc: "mset (insert_desc t ts) = add_mset t (mset ts)"
  by (induction ts) auto

lemma mset_sort_createdAt_desc: "mset (sort_createdAt_desc ts) = mset ts"
  by (induction ts) (auto simp: mset_insert_desc)

lemma set_insert_desc: "set (insert_desc t ts) = insert t (set ts)"
  by (induction ts) auto

lemma set_sort_createdAt_desc: "set (sort_createdAt_desc ts) = set ts"
  by (induction ts) (auto simp: set_insert_desc)

lemma sorted_insert_desc:
  "sorted_wrt (\<lambda>a b. createdAt b \<le> createdAt a) ts
   \<Longrightarrow> sorted_wrt (\<lambda>a b. createdAt b \<le> createdAt a) (insert_desc t ts)"
  by (induction ts) (auto simp: set_insert_desc)

lemma sorted_sort_createdAt_desc:
  "sorted_wrt (\<lambda>a b. createdAt b \<le> createdAt a) (sort_createdAt_desc ts)"
  by (induction ts) (auto simp: sorted_insert_desc)

text \<open>
  \<open>getAllTasks\<close> either answers the sorted list of the documents some predicate selects,
  or fails because the search string is a pattern the engine rejects.
\<close>

lemma getAllTasks_cases:
  "(\<exists>P. getAllTasks engine s f = Inr (sort_createdAt_desc (filter P s)))
   \<or> (getAllTasks engine s f = Inl RegexError
       \<and> (\<exists>p. f_search f = Some p \<and> p \<noteq> [] \<and> \<not> plain_pattern p \<and> engine p = None))"
  by (cases "f_search f")
     (auto simp: getAllTasks_def find_query_def build_query_def regex_compile_def
           split: option.splits)

lemma match_here_literal:
  "literal_pattern p \<Longrightarrow> match_here p x = prefix (map to_lower p) (map to_lower x)"
proof (induction p x rule: match_here.induct)
  case (3 p ps c cs)
  have "\<not> is_dot p"
    using "3.prems" by (auto simp: is_dot_def is_meta_def literal_pattern_def)
  then show ?case
    using 3 by (simp add: elem_match_def literal_pattern_def)
qed simp_all

lemma match_anywhere_literal:
  "literal_pattern p \<Longrightarrow> match_anywhere p x = contains_ci p x"
  by (induction x) (auto simp: contains_ci_def match_here_literal sublist_Cons_right)

lemma literal_plain: "literal_pattern p \<Longrightarrow> plain_pattern p"
  by (induction p) (auto simp: plain_pattern_def literal_pattern_def)

lemma contains_ci_Nil: "contains_ci [] x"
  by (simp add: contains_ci_def)

section \<open>Statistics\<close>

text \<open>
  C2. On one store state and one clock reading, \<open>getTaskStats\<close> returns \<open>total\<close> = the
  number of tasks, \<open>completed\<close> = the number of tasks with \<open>isCompleted\<close> true, \<open>pending\<close> =
  the number with \<open>isCompleted\<close> false, \<open>overdue\<close> = the number with \<open>isCompleted\<close> false and
  a due date strictly before \<open>now\<close>; and \<open>completed + pending = total\<close>,
  \<open>overdue \<le> pending\<close>.
\<close>

theorem getTaskStats_counts:
  "stats.total (getTaskStats now s) = length s
   \<and> completed (getTaskStats now s) = length (filter isCompleted s)
   \<and> pending (getTaskStats now s) = length (filter (\<lambda>t. \<not> isCompleted t) s)
   \<and> overdue (getTaskStats now s)
       = length (filter (\<lambda>t. \<not> isCompleted t \<and> (\<exists>d. dueDate t = Some d \<and> d < now)) s)
   \<and> completed (getTaskStats now s) + pending (getTaskStats now s)
       = stats.total (getTaskStats now s)
   \<and> overdue (getTaskStats now s) \<le> pending (getTaskStats now s)"
proof -
  have cm:
    "count_matches \<lparr> c_isCompleted = None, c_dueDate_lt = None \<rparr> = (\<lambda>t. True)"
    "count_matches \<lparr> c_isCompleted = Some True, c_dueDate_lt = None \<rparr> = isCompleted"
    "count_matches \<lparr> c_isCompleted = Some False, c_dueDate_lt = None \<rparr>
       = (\<lambda>t. \<not> isCompleted t)"
    "count_matches \<lparr> c_isCompleted = Some False, c_dueDate_lt = Some now \<rparr>
       = (\<lambda>t. \<not> isCompleted t \<and> (\<exists>d. dueDate t = Some d \<and> d < now))"
    by (auto simp: count_matches_def eq_clause_def fun_eq_iff split: option.splits)
  have part:
    "length (filter isCompleted s) + length (filter (\<lambda>t. \<not> isCompleted t) s) = length s"
    by (rule sum_length_filter_compl)
  have sub:
    "length (filter (\<lambda>t. \<not> isCompleted t \<and> (\<exists>d. dueDate t = Some d \<and> d < now)) s)
       \<le> length (filter (\<lambda>t. \<not> isCompleted t) s)"
    by (induction s) auto
  show ?thesis
    using part sub by (simp add: getTaskStats_def countDocuments_def cm)
qed

text \<open>At clock reading 6000 the sample store has one overdue task among its two pending.\<close>

theorem getTaskStats_counts_witness:
  "getTaskStats 6000 sample_store = \<lparr> total = 3, completed = 1, pending = 2, overdue = 1 \<rparr>
   \<and> completed (getTaskStats 6000 sample_store) + pending (getTaskStats 6000 sample_store)
       = stats.total (getTaskStats 6000 sample_store)
   \<and> overdue (getTaskStats 6000 sample_store) \<le> pending (getTaskStats 6000 sample_store)"
proof -
  have "getTaskStats 6000 sample_store = \<lparr> total = 3, completed = 1, pending = 2, overdue = 1 \<rparr>"
    by (simp add: getTaskStats_def countDocuments_def count_matches_def eq_clause_def
                  sample_store_def task_a_def task_b_def task_c_def)
  then show ?thesis
    using getTaskStats_counts [of 6000 sample_store] by simp
qed

section \<open>Listing\<close>

text \<open>
  C9. Whatever the store and the filter, the list \<open>getAllTasks\<close> returns is in descending
  order of \<open>createdAt\<close>: at positions \<open>i < j\<close> the task at \<open>i\<close> was created no earlier than
  the task at \<open>j\<close>. The only other outcome is the error of a search pattern that the
  regular-expression engine rejects.
\<close>

theorem getAllTasks_sorted:
  "(\<exists>ts. getAllTasks engine s f = Inr ts
        \<and> (\<forall>i j. i < j \<and> j < length ts \<longrightarrow> createdAt (ts ! j) \<le> createdAt (ts ! i)))
   \<or> (getAllTasks engine s f = Inl RegexError
       \<and> (\<exists>p. f_search f = Some p \<and> p \<noteq> [] \<and> \<not> plain_pattern p \<and> engine p = None))"
proof -
  have "\<forall>i j. i < j \<and> j < length (sort_createdAt_desc xs)
          \<longrightarrow> createdAt (sort_createdAt_desc xs ! j) \<le> createdAt (sort_createdAt_desc xs ! i)"
    for xs
    using sorted_sort_createdAt_desc [of xs] by (simp add: sorted_wrt_iff_nth_less)
  then show ?thesis
    using getAllTasks_cases [of engine s f] by auto
qed

theorem getAllTasks_sorted_witness:
  "getAllTasks no_engine sample_store no_filters = Inr [task_b, task_c, task_a]
   \<and> createdAt task_a \<le> createdAt task_c \<and> createdAt task_c \<le> createdAt task_b"
proof -
  have e: "getAllTasks no_engine sample_store no_filters = Inr [task_b, task_c, task_a]"
    by code_simp
  have "\<forall>i j. i < j \<and> j < length [task_b, task_c, task_a]
          \<longrightarrow> createdAt ([task_b, task_c, task_a] ! j) \<le> createdAt ([task_b, task_c, task_a] ! i)"
    using getAllTasks_sorted [of no_engine sample_store no_filters] e by simp
  from this [rule_format, of 0 1] this [rule_format, of 1 2] e show ?thesis
    by simp
qed

text \<open>
  C4. \<open>getAllTasks\<close> with \<open>isCompleted: b\<close> returns only tasks whose \<open>isCompleted\<close> is \<open>b\<close>
  (with \<open>false\<close>: never a completed task), and with that filter alone exactly the tasks of
  the store whose \<open>isCompleted\<close> is \<open>b\<close>; with no filter at all it returns every task. The
  filter constrains exactly when the key is present, also when it holds \<open>false\<close>; so
  \<open>getPendingTasks\<close> returns pending tasks only and \<open>getCompletedTasks\<close> completed ones.
\<close>

theorem getAllTasks_isCompleted_filter:
  "(\<forall>f b ts. getAllTasks engine s f = Inr ts \<and> f_isCompleted f = Some b
        \<longrightarrow> (\<forall>t \<in> set ts. isCompleted t = b))
   \<and> (\<forall>b. \<exists>ts. getAllTasks engine s (no_filters\<lparr> f_isCompleted := Some b \<rparr>) = Inr ts
         \<and> mset ts = mset (filter (\<lambda>t. isCompleted t = b) s))
   \<and> (\<exists>ts. getAllTasks engine s no_filters = Inr ts \<and> mset ts = mset s)
   \<and> (\<exists>ts. getPendingTasks engine s = Inr ts \<and> (\<forall>t \<in> set ts. \<not> isCompleted t))
   \<and> (\<exists>ts. getCompletedTasks engine s = Inr ts \<and> (\<forall>t \<in> set ts. isCompleted t))"
  by (auto simp: getAllTasks_def find_query_def build_query_def eq_clause_def no_filters_def
                 getPendingTasks_def getCompletedTasks_def
                 mset_sort_createdAt_desc set_sort_createdAt_desc
           split: option.splits sum.splits)

theorem getAllTasks_isCompleted_filter_witness:
  "getAllTasks no_engine sample_store (no_filters\<lparr> f_isCompleted := Some False \<rparr>)
     = Inr [task_c, task_a]
   \<and> isCompleted task_c = False \<and> isCompleted task_a = False
   \<and> getAllTasks no_engine sample_store no_filters = Inr [task_b, task_c, task_a]"
proof -
  have e: "getAllTasks no_engine sample_store (no_filters\<lparr> f_isCompleted := Some False \<rparr>)
             = Inr [task_c, task_a]"
    by code_simp
  have a: "getAllTasks no_engine sample_store no_filters = Inr [task_b, task_c, task_a]"
    by code_simp
  have k: "f_isCompleted (no_filters\<lparr> f_isCompleted := Some False \<rparr>) = Some False"
    by simp
  from getAllTasks_isCompleted_filter [of no_engine sample_store] e k
  have "\<forall>t \<in> set [task_c, task_a]. isCompleted t = False"
    by blast
  with e a show ?thesis
    by simp
qed

text \<open>
  C5, as the code has it. The search string is handed to \<open>$regex\<close> and read as a regular
  expression. For a search string of ASCII characters without regular-expression
  metacharacters, \<open>getAllTasks\<close> with that search alone returns exactly the tasks whose
  title or description contains the string as a case-insensitive substring.
\<close>

theorem getAllTasks_search_literal:
  assumes "literal_pattern p"
  shows "\<exists>ts. getAllTasks engine s (no_filters\<lparr> f_search := Some p \<rparr>) = Inr ts
           \<and> mset ts = mset (filter (\<lambda>t. contains_ci p (title t)
                                        \<or> (\<exists>d. description t = Some d \<and> contains_ci p d)) s)"
proof (cases "p = []")
  case True
  then show ?thesis
    by (simp add: getAllTasks_def find_query_def build_query_def eq_clause_def no_filters_def
                  mset_sort_createdAt_desc contains_ci_Nil)
next
  case False
  have m: "or_clause (match_anywhere p)
             = (\<lambda>t. contains_ci p (title t) \<or> (\<exists>d. description t = Some d \<and> contains_ci p d))"
    by (auto simp: or_clause_def match_anywhere_literal [OF assms] fun_eq_iff
             split: option.splits)
  show ?thesis
    using False literal_plain [OF assms]
    by (simp add: getAllTasks_def find_query_def build_query_def eq_clause_def no_filters_def
                  regex_compile_def mset_sort_createdAt_desc m)
qed

text \<open>Searching \<open>BO\<close> finds the one task whose description says "Call Bob".\<close>

theorem getAllTasks_search_literal_witness:
  "literal_pattern ''BO''
   \<and> getAllTasks no_engine sample_store (no_filters\<lparr> f_search := Some ''BO'' \<rparr>) = Inr [task_c]
   \<and> mset [task_c]
       = mset (filter (\<lambda>t. contains_ci ''BO'' (title t)
                            \<or> (\<exists>d. description t = Some d \<and> contains_ci ''BO'' d)) sample_store)"
proof -
  have l: "literal_pattern ''BO''"
    by code_simp
  have e: "getAllTasks no_engine sample_store (no_filters\<lparr> f_search := Some ''BO'' \<rparr>)
             = Inr [task_c]"
    by code_simp
  from getAllTasks_search_literal [OF l, of no_engine sample_store] l e show ?thesis
    by simp
qed

text \<open>
  C5 as stated fails: the search string \<open>.\<close> returns the task titled "Pay rent", which has
  no description and whose title does not contain a full stop.
\<close>

theorem getAllTasks_search_counterexample:
  "getAllTasks no_engine [task_a] (no_filters\<lparr> f_search := Some ''.'' \<rparr>) = Inr [task_a]
   \<and> \<not> contains_ci ''.'' (title task_a)
   \<and> description task_a = None"
  by code_simp

section \<open>Properties of updates and deletions\<close>

lemma update_first_None: "find P s = None \<Longrightarrow> update_first P f s = (s, None)"
  by (induction s) (auto split: if_splits)

lemma update_first_Some:
  "find P s = Some t \<Longrightarrow>
   \<exists>i < length s. s ! i = t \<and> update_first P f s = (s[i := f t], Some (f t))"
proof (induction s)
  case Nil
  then show ?case by simp
next
  case (Cons a s)
  show ?case
  proof (cases "P a")
    case True
    then have "a = t" using Cons.prems by simp
    with True show ?thesis by (intro exI [of _ 0]) simp
  next
    case False
    then have "find P s = Some t" using Cons.prems by simp
    then obtain i where "i < length s" "s ! i = t"
      "update_first P f s = (s[i := f t], Some (f t))"
      using Cons.IH by blast
    with False show ?thesis by (intro exI [of _ "Suc i"]) simp
  qed
qed

lemma find_update_first:
  "find P s = Some t \<Longrightarrow> P (f t) \<Longrightarrow> find P (fst (update_first P f s)) = Some (f t)"
  by (induction s) (auto split: if_splits prod.splits)

lemma delete_first_None: "find P s = None \<Longrightarrow> delete_first P s = (s, None)"
  by (induction s) (auto split: if_splits)

lemma updateTask_Inr_iff:
  "updateTask now parse s ident p = (s', Inr r)
   \<longleftrightarrow> valid_id ident \<and> patch_accepted now parse p
       \<and> update_first (has_id ident) (apply_set (cast_update (updateData now parse p))) s = (s', r)"
  by (auto simp: updateTask_def findByIdAndUpdate_def patch_accepted_def Let_def
           split: prod.splits)

lemma updateTask_Inl_store:
  "updateTask now parse s ident p = (s', Inl e) \<Longrightarrow> s' = s"
  by (auto simp: updateTask_def findByIdAndUpdate_def Let_def split: prod.splits if_splits)

lemma has_id_apply_set: "has_id ident (apply_set u t) = has_id ident t"
  by (simp add: has_id_def apply_set_def)

lemma apply_set_fields:
  "title (apply_set (cast_update (updateData now parse p)) t)
     = (case u_title p of None \<Rightarrow> title t | Some v \<Rightarrow> trim v)"
  "description (apply_set (cast_update (updateData now parse p)) t)
     = (case u_description p of None \<Rightarrow> description t | Some v \<Rightarrow> Some (trim v))"
  "priority (apply_set (cast_update (updateData now parse p)) t)
     = (case u_priority p of None \<Rightarrow> priority t | Some v \<Rightarrow> v)"
  "tags (apply_set (cast_update (updateData now parse p)) t)
     = (case u_tags p of None \<Rightarrow> tags t | Some v \<Rightarrow> map trim v)"
  "isCompleted (apply_set (cast_update (updateData now parse p)) t)
     = (case u_isCompleted p of None \<Rightarrow> isCompleted t | Some b \<Rightarrow> b)"
  "oid (apply_set (cast_update (updateData now parse p)) t) = oid t"
  "createdAt (apply_set (cast_update (updateData now parse p)) t) = createdAt t"
  "updatedAt (apply_set (cast_update (updateData now parse p)) t) = now"
  by (simp_all add: apply_set_def cast_update_def updateData_def split: option.splits)

lemma apply_set_dueDate_falsy:
  "\<not> truthy (u_dueDate p)
   \<Longrightarrow> dueDate (apply_set (cast_update (updateData now parse p)) t) = dueDate t"
  by (simp add: apply_set_def cast_update_def updateData_def)

lemma apply_set_dueDate_truthy:
  assumes "truthy (u_dueDate p)" and "patch_accepted now parse p"
  shows "\<exists>d. newDate parse (u_dueDate p) = ValidDate d \<and> now < d
             \<and> dueDate (apply_set (cast_update (updateData now parse p)) t) = Some d"
proof (cases "newDate parse (u_dueDate p)")
  case InvalidDate
  then show ?thesis
    using assms by (simp add: patch_accepted_def updateData_def)
next
  case (ValidDate d)
  have "validate_dueDate now (ValidDate d) = []"
    using assms ValidDate
    by (simp add: patch_accepted_def update_errors_def cast_update_def updateData_def)
  then have "now < d"
    by (simp split: if_splits)
  then show ?thesis
    using assms(1) ValidDate by (simp add: apply_set_def cast_update_def updateData_def)
qed

lemma empty_patch_accepted: "patch_accepted now parse empty_patch"
  by (simp add: patch_accepted_def empty_patch_def updateData_def update_errors_def
                cast_update_def)

lemma pending_patch_accepted:
  "patch_accepted now parse (empty_patch\<lparr> u_isCompleted := Some b \<rparr>)"
  by (simp add: patch_accepted_def empty_patch_def updateData_def update_errors_def
                cast_update_def)

lemma apply_set_empty_patch:
  "apply_set (cast_update (updateData now parse empty_patch)) t = t\<lparr> updatedAt := now \<rparr>"
  by (simp add: apply_set_def cast_update_def updateData_def empty_patch_def)

lemma apply_set_pending_patch:
  "isCompleted t = b \<Longrightarrow>
   apply_set (cast_update (updateData now parse (empty_patch\<lparr> u_isCompleted := Some b \<rparr>))) t
     = t\<lparr> updatedAt := now \<rparr>"
  by (simp add: apply_set_def cast_update_def updateData_def empty_patch_def)

text \<open>An accepted update of an existing task: what is returned and what the store holds.\<close>

lemma updateTask_existing:
  assumes v: "valid_id ident" and f: "findById s ident = Some t"
      and a: "patch_accepted now parse p"
  shows "\<exists>i < length s. s ! i = t
           \<and> updateTask now parse s ident p
               = (s[i := apply_set (cast_update (updateData now parse p)) t],
                  Inr (Some (apply_set (cast_update (updateData now parse p)) t)))
           \<and> findById (s[i := apply_set (cast_update (updateData now parse p)) t]) ident
               = Some (apply_set (cast_update (updateData now parse p)) t)"
proof -
  let ?f = "apply_set (cast_update (updateData now parse p))"
  from f have fs: "find (has_id ident) s = Some t"
    by (simp add: findById_def)
  then obtain i where i: "i < length s" "s ! i = t"
    "update_first (has_id ident) ?f s = (s[i := ?f t], Some (?f t))"
    using update_first_Some [of "has_id ident" s t ?f] by blast
  have "has_id ident t"
    using fs by (auto simp: find_Some_iff)
  then have "has_id ident (?f t)"
    by (simp add: has_id_apply_set)
  from find_update_first [of "has_id ident" s t ?f, OF fs this] i(3)
  have "findById (s[i := ?f t]) ident = Some (?f t)"
    by (simp add: findById_def)
  moreover have "updateTask now parse s ident p = (s[i := ?f t], Inr (Some (?f t)))"
    using v a i(3) by (simp add: updateTask_Inr_iff)
  ultimately show ?thesis
    using i(1,2) by blast
qed

lemma sample_ids:
  "valid_id id_a" "findById sample_store id_a = Some task_a"
  "valid_id id_d" "findById sample_store id_d = None"
  by code_simp+

section \<open>Partial updates\<close>

text \<open>
  C1, as the code has it. For an existing task, every update the service accepts returns
  the task with exactly the patch's fields applied (strings after the schema's \<open>trim\<close>)
  and every other field as it was, \<open>updatedAt\<close> apart, where a \<open>dueDate\<close> key counts as
  present only when its value is truthy: \<open>null\<close> and the empty string leave the stored
  due date alone. Falsy values of \<open>isCompleted\<close> are applied: \<open>isCompleted: false\<close> sets
  completion to false and an absent key leaves it. In particular \<open>{ isCompleted: false }\<close>
  on a task that is already pending succeeds and changes \<open>updatedAt\<close> only.
\<close>

theorem updateTask_applies_patch:
  assumes "valid_id ident" and "findById s ident = Some t"
  shows "(\<forall>p s' r. updateTask now parse s ident p = (s', Inr r) \<longrightarrow>
            (\<exists>t'. r = Some t' \<and> findById s' ident = Some t'
               \<and> title t' = (case u_title p of None \<Rightarrow> title t | Some v \<Rightarrow> trim v)
               \<and> description t'
                   = (case u_description p of None \<Rightarrow> description t | Some v \<Rightarrow> Some (trim v))
               \<and> priority t' = (case u_priority p of None \<Rightarrow> priority t | Some v \<Rightarrow> v)
               \<and> tags t' = (case u_tags p of None \<Rightarrow> tags t | Some v \<Rightarrow> map trim v)
               \<and> isCompleted t' = (case u_isCompleted p of None \<Rightarrow> isCompleted t | Some b \<Rightarrow> b)
               \<and> (if truthy (u_dueDate p)
                   then \<exists>d. newDate parse (u_dueDate p) = ValidDate d \<and> now < d
                            \<and> dueDate t' = Some d
                   else dueDate t' = dueDate t)
               \<and> oid t' = oid t \<and> createdAt t' = createdAt t \<and> updatedAt t' = now))
         \<and> (isCompleted t = False \<longrightarrow>
              (\<exists>s'. markTaskPending now parse s ident = (s', Inr (Some (t\<lparr> updatedAt := now \<rparr>)))
                 \<and> findById s' ident = Some (t\<lparr> updatedAt := now \<rparr>)))"
proof (intro conjI allI impI)
  fix p s' r
  assume u: "updateTask now parse s ident p = (s', Inr r)"
  let ?t' = "apply_set (cast_update (updateData now parse p)) t"
  from u have a: "patch_accepted now parse p"
    by (simp add: updateTask_Inr_iff)
  from updateTask_existing [OF assms a] u
  have r: "r = Some ?t'" and f: "findById s' ident = Some ?t'"
    by auto
  have d: "if truthy (u_dueDate p)
           then \<exists>d. newDate parse (u_dueDate p) = ValidDate d \<and> now < d \<and> dueDate ?t' = Some d
           else dueDate ?t' = dueDate t"
    using apply_set_dueDate_truthy [OF _ a, of t] apply_set_dueDate_falsy [of p now parse t]
    by (cases "truthy (u_dueDate p)") simp_all
  show "\<exists>t'. r = Some t' \<and> findById s' ident = Some t'
               \<and> title t' = (case u_title p of None \<Rightarrow> title t | Some v \<Rightarrow> trim v)
               \<and> description t'
                   = (case u_description p of None \<Rightarrow> description t | Some v \<Rightarrow> Some (trim v))
               \<and> priority t' = (case u_priority p of None \<Rightarrow> priority t | Some v \<Rightarrow> v)
               \<and> tags t' = (case u_tags p of None \<Rightarrow> tags t | Some v \<Rightarrow> map trim v)
               \<and> isCompleted t' = (case u_isCompleted p of None \<Rightarrow> isCompleted t | Some b \<Rightarrow> b)
               \<and> (if truthy (u_dueDate p)
                   then \<exists>d. newDate parse (u_dueDate p) = ValidDate d \<and> now < d
                            \<and> dueDate t' = Some d
                   else dueDate t' = dueDate t)
               \<and> oid t' = oid t \<and> createdAt t' = createdAt t \<and> updatedAt t' = now"
    using r f d by (intro exI [of _ ?t']) (simp only: apply_set_fields simp_thms)
next
  assume c: "isCompleted t = False"
  from updateTask_existing [OF assms pending_patch_accepted [of now parse False]]
  show "\<exists>s'. markTaskPending now parse s ident = (s', Inr (Some (t\<lparr> updatedAt := now \<rparr>)))
                 \<and> findById s' ident = Some (t\<lparr> updatedAt := now \<rparr>)"
    by (auto simp: markTaskPending_def apply_set_pending_patch [OF c])
qed

text \<open>
  A patch with a title in need of trimming, \<open>isCompleted: false\<close> and a future due date,
  applied to the pending sample task at clock reading 6000; and \<open>markTaskPending\<close> on it.
\<close>

theorem updateTask_applies_patch_witness:
  "valid_id id_a \<and> findById sample_store id_a = Some task_a
   \<and> updateTask 6000 sample_parse sample_store id_a future_patch
       = ([task_a\<lparr> title := ''Pay the rent'', dueDate := Some 8000, updatedAt := 6000 \<rparr>,
           task_b, task_c],
          Inr (Some (task_a\<lparr> title := ''Pay the rent'', dueDate := Some 8000,
                              updatedAt := 6000 \<rparr>)))
   \<and> isCompleted task_a = False
   \<and> markTaskPending 6000 sample_parse sample_store id_a
       = ([task_a\<lparr> updatedAt := 6000 \<rparr>, task_b, task_c],
          Inr (Some (task_a\<lparr> updatedAt := 6000 \<rparr>)))"
proof -
  have e: "updateTask 6000 sample_parse sample_store id_a future_patch
       = ([task_a\<lparr> title := ''Pay the rent'', dueDate := Some 8000, updatedAt := 6000 \<rparr>,
           task_b, task_c],
          Inr (Some (task_a\<lparr> title := ''Pay the rent'', dueDate := Some 8000,
                              updatedAt := 6000 \<rparr>)))"
    by code_simp
  have c: "isCompleted task_a = False"
    by (simp add: task_a_def)
  have m: "markTaskPending 6000 sample_parse sample_store id_a
       = ([task_a\<lparr> updatedAt := 6000 \<rparr>, task_b, task_c],
          Inr (Some (task_a\<lparr> updatedAt := 6000 \<rparr>)))"
    by code_simp
  from updateTask_applies_patch [OF sample_ids(1,2), of 6000 sample_parse] c
  have "\<exists>s'. markTaskPending 6000 sample_parse sample_store id_a
               = (s', Inr (Some (task_a\<lparr> updatedAt := 6000 \<rparr>)))"
    by blast
  with e c m sample_ids(1,2) show ?thesis
    by simp
qed

text \<open>
  C1 as stated fails: a patch that holds the key \<open>dueDate\<close> with the empty string, or with
  \<open>null\<close>, is accepted, and the stored due date stays 5000: the key is present and is not
  applied.
\<close>

theorem updateTask_applies_patch_counterexample:
  "updateTask 6000 sample_parse sample_store id_a (empty_patch\<lparr> u_dueDate := JString [] \<rparr>)
     = ([task_a\<lparr> updatedAt := 6000 \<rparr>, task_b, task_c], Inr (Some (task_a\<lparr> updatedAt := 6000 \<rparr>)))
   \<and> updateTask 6000 sample_parse sample_store id_a (empty_patch\<lparr> u_dueDate := JNull \<rparr>)
     = ([task_a\<lparr> updatedAt := 6000 \<rparr>, task_b, task_c], Inr (Some (task_a\<lparr> updatedAt := 6000 \<rparr>)))
   \<and> dueDate (task_a\<lparr> updatedAt := 6000 \<rparr>) = Some 5000"
  by code_simp

text \<open>
  C8, as the code has it. For an existing task the empty patch is accepted: the task
  comes back with \<open>updatedAt\<close> set to the clock reading and every other field as it was,
  and no other task of the store changes. \<open>updatedAt\<close> strictly advances when the clock
  reading is later than the stored stamp.
\<close>

theorem updateTask_empty_patch:
  assumes "valid_id ident" and "findById s ident = Some t"
  shows "\<exists>i < length s. s ! i = t
           \<and> updateTask now parse s ident empty_patch
               = (s[i := t\<lparr> updatedAt := now \<rparr>], Inr (Some (t\<lparr> updatedAt := now \<rparr>)))
           \<and> findById (s[i := t\<lparr> updatedAt := now \<rparr>]) ident = Some (t\<lparr> updatedAt := now \<rparr>)
           \<and> updatedAt (t\<lparr> updatedAt := now \<rparr>) = now
           \<and> (updatedAt t < now \<longrightarrow> updatedAt t < updatedAt (t\<lparr> updatedAt := now \<rparr>))"
  using updateTask_existing [OF assms empty_patch_accepted, of now parse]
  by (simp add: apply_set_empty_patch)

theorem updateTask_empty_patch_witness:
  "valid_id id_a \<and> findById sample_store id_a = Some task_a
   \<and> updateTask 6000 sample_parse sample_store id_a empty_patch
       = ([task_a\<lparr> updatedAt := 6000 \<rparr>, task_b, task_c],
          Inr (Some (task_a\<lparr> updatedAt := 6000 \<rparr>)))
   \<and> updatedAt task_a < 6000
   \<and> updatedAt task_a < updatedAt (task_a\<lparr> updatedAt := 6000 \<rparr>)"
proof -
  have e: "updateTask 6000 sample_parse sample_store id_a empty_patch
       = ([task_a\<lparr> updatedAt := 6000 \<rparr>, task_b, task_c],
          Inr (Some (task_a\<lparr> updatedAt := 6000 \<rparr>)))"
    by code_simp
  have l: "updatedAt task_a < 6000"
    by (simp add: task_a_def)
  from updateTask_empty_patch [OF sample_ids(1,2), of 6000 sample_parse] l
  have "updatedAt task_a < updatedAt (task_a\<lparr> updatedAt := 6000 \<rparr>)"
    by blast
  with e l sample_ids(1,2) show ?thesis
    by simp
qed

text \<open>
  C8 as stated fails on the strict advance. The clock counts whole milliseconds: a task
  created at clock reading 100 and given the empty patch at the same reading comes back
  exactly as stored, \<open>updatedAt\<close> still 100.
\<close>

theorem updateTask_empty_patch_counterexample:
  "createTask 100 sample_parse id_d [] sample_request = ([task_d], Inr task_d)
   \<and> updateTask 100 sample_parse [task_d] id_d empty_patch = ([task_d], Inr (Some task_d))
   \<and> updatedAt task_d = 100"
  by code_simp

text \<open>
  C10. For an existing task with a due date, whatever the patch and whatever the outcome
  of \<open>updateTask\<close>, the task is still stored with a due date afterwards: a patch whose
  \<open>dueDate\<close> is absent, \<open>null\<close> or the empty string leaves it as it was, and where it
  changed, the new value is the patch's date, strictly later than the clock reading.
\<close>

theorem updateTask_keeps_dueDate:
  assumes "valid_id ident" and "findById s ident = Some t" and "dueDate t = Some d"
  shows "\<exists>t'. findById (fst (updateTask now parse s ident p)) ident = Some t'
           \<and> dueDate t' \<noteq> None
           \<and> (\<not> truthy (u_dueDate p) \<longrightarrow> dueDate t' = Some d)
           \<and> (dueDate t' \<noteq> Some d \<longrightarrow>
                (\<exists>d'. newDate parse (u_dueDate p) = ValidDate d' \<and> now < d'
                   \<and> dueDate t' = Some d'))"
proof (cases "updateTask now parse s ident p")
  case (Pair s' res)
  show ?thesis
  proof (cases res)
    case (Inl e)
    then have "s' = s"
      using Pair updateTask_Inl_store by blast
    then show ?thesis
      using Pair assms by simp
  next
    case (Inr r)
    let ?t' = "apply_set (cast_update (updateData now parse p)) t"
    from Pair Inr have a: "patch_accepted now parse p"
      by (simp add: updateTask_Inr_iff)
    from updateTask_existing [OF assms(1,2) a] Pair
    have f: "findById s' ident = Some ?t'"
      by auto
    show ?thesis
    proof (cases "truthy (u_dueDate p)")
      case True
      from apply_set_dueDate_truthy [OF True a, of t] f Pair True show ?thesis
        by auto
    next
      case False
      from apply_set_dueDate_falsy [OF False, of now parse t] f Pair assms(3) False show ?thesis
        by auto
    qed
  qed
qed

text \<open>
  The sample task due at 5000 keeps that date under a patch with \<open>dueDate: null\<close>, and gets
  the date 8000 from a patch that carries it.
\<close>

theorem updateTask_keeps_dueDate_witness:
  "valid_id id_a \<and> findById sample_store id_a = Some task_a \<and> dueDate task_a = Some 5000
   \<and> \<not> truthy JNull
   \<and> findById (fst (updateTask 6000 sample_parse sample_store id_a
                       (empty_patch\<lparr> u_dueDate := JNull \<rparr>))) id_a
       = Some (task_a\<lparr> updatedAt := 6000 \<rparr>)
   \<and> dueDate (task_a\<lparr> updatedAt := 6000 \<rparr>) = Some 5000
   \<and> findById (fst (updateTask 6000 sample_parse sample_store id_a future_patch)) id_a
       = Some (task_a\<lparr> title := ''Pay the rent'', dueDate := Some 8000, updatedAt := 6000 \<rparr>)"
proof -
  have d: "dueDate task_a = Some 5000"
    by (simp add: task_a_def)
  have e: "findById (fst (updateTask 6000 sample_parse sample_store id_a
                            (empty_patch\<lparr> u_dueDate := JNull \<rparr>))) id_a
             = Some (task_a\<lparr> updatedAt := 6000 \<rparr>)"
    by code_simp
  have g: "findById (fst (updateTask 6000 sample_parse sample_store id_a future_patch)) id_a
       = Some (task_a\<lparr> title := ''Pay the rent'', dueDate := Some 8000, updatedAt := 6000 \<rparr>)"
    by code_simp
  have k: "u_dueDate (empty_patch\<lparr> u_dueDate := JNull \<rparr>) = JNull"
    by simp
  from updateTask_keeps_dueDate [OF sample_ids(1,2) d, of 6000 sample_parse
         "empty_patch\<lparr> u_dueDate := JNull \<rparr>"] e k
  have "dueDate (task_a\<lparr> updatedAt := 6000 \<rparr>) = Some 5000"
    by auto
  with d e g sample_ids(1,2) show ?thesis
    by simp
qed

section \<open>Rejected requests\<close>

text \<open>
  C3, as the code has it. When the \<open>dueDate\<close> of a request is a string that denotes a
  date not later than the clock reading, \<open>createTask\<close> fails with the due-date error, and
  so does \<open>updateTask\<close> when the id is well-formed; with a malformed id \<open>updateTask\<close>
  fails with the id-format error, which is checked first. In each case the store is
  unchanged.
\<close>

theorem due_date_not_future_rejected:
  assumes "newDate parse (JString x) = ValidDate d" and "d \<le> now"
  shows "createTask now parse newid s (r\<lparr> c_dueDate := JString x \<rparr>)
           = (s, Inl DueDateMustBeFuture)
         \<and> (valid_id ident \<longrightarrow>
              updateTask now parse s ident (p\<lparr> u_dueDate := JString x \<rparr>)
                = (s, Inl DueDateMustBeFuture))
         \<and> (\<not> valid_id ident \<longrightarrow>
              updateTask now parse s ident (p\<lparr> u_dueDate := JString x \<rparr>)
                = (s, Inl InvalidTaskIdFormat))"
proof -
  have "x \<noteq> []"
    using assms(1) by (auto split: if_splits)
  then show ?thesis
    using assms by (simp add: createTask_def updateTask_def)
qed

theorem due_date_not_future_rejected_witness:
  "newDate sample_parse (JString ''1970-01-01T00:00:02.000Z'') = ValidDate 2000
   \<and> (2000 :: int) \<le> 6000
   \<and> createTask 6000 sample_parse id_d sample_store
        (sample_request\<lparr> c_dueDate := JString ''1970-01-01T00:00:02.000Z'' \<rparr>)
       = (sample_store, Inl DueDateMustBeFuture)
   \<and> valid_id id_a
   \<and> updateTask 6000 sample_parse sample_store id_a
        (empty_patch\<lparr> u_dueDate := JString ''1970-01-01T00:00:02.000Z'' \<rparr>)
       = (sample_store, Inl DueDateMustBeFuture)"
proof -
  have n: "newDate sample_parse (JString ''1970-01-01T00:00:02.000Z'') = ValidDate 2000"
    by (simp add: sample_parse_def)
  have l: "(2000 :: int) \<le> 6000"
    by simp
  from due_date_not_future_rejected [OF n l, of id_d sample_store sample_request id_a empty_patch]
       sample_ids(1) n
  show ?thesis
    by simp
qed

text \<open>
  C3 as stated fails: with the malformed id \<open>stats\<close>, an update whose due date is the past
  date 2000 fails with the id-format error, not with the due-date error.
\<close>

theorem due_date_not_future_rejected_counterexample:
  "newDate sample_parse (u_dueDate past_patch) = ValidDate 2000
   \<and> (2000 :: int) \<le> 6000
   \<and> updateTask 6000 sample_parse sample_store ''stats'' past_patch
       = (sample_store, Inl InvalidTaskIdFormat)"
  by code_simp

text \<open>
  C6, as the code has it. A malformed id makes \<open>getTaskById\<close>, \<open>updateTask\<close> and
  \<open>deleteTask\<close> fail with the id-format error, the store untouched. A well-formed id that
  names no record makes \<open>getTaskById\<close> return \<open>null\<close> and \<open>deleteTask\<close> return \<open>false\<close>;
  \<open>updateTask\<close> returns \<open>null\<close> when the patch is accepted, and otherwise fails with the
  patch's own error, never with the id-format error.
\<close>

theorem id_format_gate:
  "(\<not> valid_id ident \<longrightarrow>
      getTaskById s ident = Inl InvalidTaskIdFormat
      \<and> updateTask now parse s ident p = (s, Inl InvalidTaskIdFormat)
      \<and> deleteTask s ident = (s, Inl InvalidTaskIdFormat))
   \<and> (valid_id ident \<and> findById s ident = None \<longrightarrow>
        getTaskById s ident = Inr None
        \<and> deleteTask s ident = (s, Inr False)
        \<and> (patch_accepted now parse p \<longrightarrow> updateTask now parse s ident p = (s, Inr None))
        \<and> (\<not> patch_accepted now parse p \<longrightarrow>
             (\<exists>e. updateTask now parse s ident p = (s, Inl e) \<and> e \<noteq> InvalidTaskIdFormat)))"
proof (intro conjI impI)
  assume "valid_id ident \<and> findById s ident = None"
  then have v: "valid_id ident" and n: "find (has_id ident) s = None"
    by (simp_all add: findById_def)
  show "getTaskById s ident = Inr None"
    using v n by (simp add: getTaskById_def findById_def)
  show "deleteTask s ident = (s, Inr False)"
    using v by (simp add: deleteTask_def findByIdAndDelete_def delete_first_None [OF n])
  show "updateTask now parse s ident p = (s, Inr None)" if "patch_accepted now parse p"
    using v that by (simp add: updateTask_Inr_iff update_first_None [OF n])
  show "\<exists>e. updateTask now parse s ident p = (s, Inl e) \<and> e \<noteq> InvalidTaskIdFormat"
    if "\<not> patch_accepted now parse p"
    using v that
    by (auto simp: updateTask_def findByIdAndUpdate_def patch_accepted_def Let_def)
qed (simp_all add: getTaskById_def updateTask_def deleteTask_def)

text \<open>
  The id \<open>stats\<close> is malformed; the id of twenty-four \<open>d\<close> is well-formed and names no
  task of the sample store.
\<close>

theorem id_format_gate_witness:
  "\<not> valid_id ''stats''
   \<and> getTaskById sample_store ''stats'' = Inl InvalidTaskIdFormat
   \<and> updateTask 6000 sample_parse sample_store ''stats'' empty_patch
       = (sample_store, Inl InvalidTaskIdFormat)
   \<and> deleteTask sample_store ''stats'' = (sample_store, Inl InvalidTaskIdFormat)
   \<and> valid_id id_d \<and> findById sample_store id_d = None
   \<and> getTaskById sample_store id_d = Inr None
   \<and> deleteTask sample_store id_d = (sample_store, Inr False)
   \<and> patch_accepted 6000 sample_parse empty_patch
   \<and> updateTask 6000 sample_parse sample_store id_d empty_patch = (sample_store, Inr None)"
proof -
  have b: "\<not> valid_id ''stats''"
    by code_simp
  from id_format_gate [of "''stats''" sample_store 6000 sample_parse empty_patch] b
  have 1: "getTaskById sample_store ''stats'' = Inl InvalidTaskIdFormat
           \<and> updateTask 6000 sample_parse sample_store ''stats'' empty_patch
               = (sample_store, Inl InvalidTaskIdFormat)
           \<and> deleteTask sample_store ''stats'' = (sample_store, Inl InvalidTaskIdFormat)"
    by blast
  from id_format_gate [of id_d sample_store 6000 sample_parse empty_patch]
       sample_ids(3,4) empty_patch_accepted [of 6000 sample_parse]
  have 2: "getTaskById sample_store id_d = Inr None
           \<and> deleteTask sample_store id_d = (sample_store, Inr False)
           \<and> updateTask 6000 sample_parse sample_store id_d empty_patch = (sample_store, Inr None)"
    by blast
  from b 1 2 sample_ids(3,4) empty_patch_accepted [of 6000 sample_parse] show ?thesis
    by simp
qed

text \<open>
  C6 as stated fails: for a well-formed id that names no record, \<open>updateTask\<close> with a past
  due date does not return \<open>null\<close>; it fails with the due-date error.
\<close>

theorem id_format_gate_counterexample:
  "valid_id id_d \<and> findById sample_store id_d = None
   \<and> updateTask 6000 sample_parse sample_store id_d past_patch
       = (sample_store, Inl DueDateMustBeFuture)"
  by code_simp

text \<open>
  C7, as the code has it. A \<open>dueDate\<close> that is a non-empty string and does not parse as a
  date makes \<open>createTask\<close> fail with a validation error on the \<open>dueDate\<close> path and
  \<open>updateTask\<close> fail (with the cast error, or with the id-format error for a malformed
  id), the store unchanged. A \<open>dueDate\<close> that is falsy, the empty string or \<open>null\<close>, is
  handled exactly as an absent key.
\<close>

theorem unparseable_dueDate:
  "(x \<noteq> [] \<and> parse x = InvalidDate \<longrightarrow>
      (\<exists>errs. createTask now parse newid s (r\<lparr> c_dueDate := JString x \<rparr>)
                 = (s, Inl (ValidationError errs)) \<and> DueDateCast \<in> set errs)
      \<and> (\<exists>e. updateTask now parse s ident (p\<lparr> u_dueDate := JString x \<rparr>) = (s, Inl e)
               \<and> e = (if valid_id ident then CastError else InvalidTaskIdFormat)))
   \<and> (\<not> truthy v \<longrightarrow>
        createTask now parse newid s (r\<lparr> c_dueDate := v \<rparr>)
          = createTask now parse newid s (r\<lparr> c_dueDate := JUndefined \<rparr>)
        \<and> updateTask now parse s ident (p\<lparr> u_dueDate := v \<rparr>)
          = updateTask now parse s ident (p\<lparr> u_dueDate := JUndefined \<rparr>))"
  by (auto simp: createTask_def save_def Let_def updateTask_def findByIdAndUpdate_def
                 updateData_def)

theorem unparseable_dueDate_witness:
  "''tomorrow'' \<noteq> [] \<and> sample_parse ''tomorrow'' = InvalidDate
   \<and> createTask 6000 sample_parse id_d sample_store
        (sample_request\<lparr> c_dueDate := JString ''tomorrow'' \<rparr>)
       = (sample_store, Inl (ValidationError [DueDateCast]))
   \<and> updateTask 6000 sample_parse sample_store id_a
        (empty_patch\<lparr> u_dueDate := JString ''tomorrow'' \<rparr>)
       = (sample_store, Inl CastError)
   \<and> \<not> truthy (JString [])
   \<and> createTask 6000 sample_parse id_d sample_store (sample_request\<lparr> c_dueDate := JString [] \<rparr>)
       = createTask 6000 sample_parse id_d sample_store (sample_request\<lparr> c_dueDate := JUndefined \<rparr>)"
proof -
  have i: "sample_parse ''tomorrow'' = InvalidDate"
    by (simp add: sample_parse_def)
  have c: "createTask 6000 sample_parse id_d sample_store
             (sample_request\<lparr> c_dueDate := JString ''tomorrow'' \<rparr>)
           = (sample_store, Inl (ValidationError [DueDateCast]))"
    by code_simp
  from unparseable_dueDate [of "''tomorrow''" sample_parse 6000 id_d sample_store sample_request
         id_a empty_patch "JString []"] i sample_ids(1)
  have "updateTask 6000 sample_parse sample_store id_a
          (empty_patch\<lparr> u_dueDate := JString ''tomorrow'' \<rparr>) = (sample_store, Inl CastError)
        \<and> createTask 6000 sample_parse id_d sample_store
            (sample_request\<lparr> c_dueDate := JString [] \<rparr>)
          = createTask 6000 sample_parse id_d sample_store
              (sample_request\<lparr> c_dueDate := JUndefined \<rparr>)"
    by simp
  with i c show ?thesis
    by simp
qed

text \<open>
  C7 as stated fails: \<open>createTask\<close> with the empty string as \<open>dueDate\<close> reports success and
  stores the task without a due date.
\<close>

theorem unparseable_dueDate_counterexample:
  "createTask 6000 sample_parse id_d sample_store (sample_request\<lparr> c_dueDate := JString [] \<rparr>)
     = (sample_store
          @ [\<lparr> oid = id_d, title = ''Water plants'', description = None, isCompleted = False,
               priority = ''medium'', dueDate = None, tags = [], createdAt = 6000,
               updatedAt = 6000 \<rparr>],
        Inr \<lparr> oid = id_d, title = ''Water plants'', description = None, isCompleted = False,
              priority = ''medium'', dueDate = None, tags = [], createdAt = 6000,
              updatedAt = 6000 \<rparr>)"
  by code_simp

end
